theory Spec2Isabelle
  imports Complex_Main "HOL-Library.AList"
begin

section \<open>JavaScript values, objects and errors\<close>

text \<open>
  The program is one class, \<open>ChartJSNodeCanvas\<close>, that drives two libraries: a chart
  engine and an off-screen canvas. Its source is \<open>src/index.ts\<close>. The two unnamed source
  files are compiled builds of earlier revisions of the same class: the first has the
  background plugin and the two buffer methods, as \<open>index.ts\<close> has; the second has no
  plugin and has the two data-URL methods, which exist nowhere else. The embedding follows
  \<open>index.ts\<close>, takes the data-URL methods from the second build, and gives a function of
  a build a name of its own where it differs.

  The embedding keeps the values JavaScript has at run time, because the constructor
  checks its argument with \<open>typeof\<close> and truthiness. A number is an IEEE double:
  not-a-number, the two infinities, or a finite value (both zeros are \<open>Finite 0\<close>; the
  only things the program asks of a number are whether it is zero or not-a-number).
\<close>

datatype jsnum = NaN | PosInf | NegInf | Finite rat

type_synonym addr = nat

text \<open>
  Objects live in a store and are referred to by address, so that a write through one
  reference is seen through every other. A function is an object too; it carries the
  identity of its code.
\<close>

datatype jsval =
    JUndefined
  | JNull
  | JBool bool
  | JNum jsnum
  | JStr string
  | JObject addr
  | JFunction addr nat

type_synonym jsobj = "(string \<times> jsval) list"

text \<open>
  \<open>Error\<close> is an error the class itself creates with \<open>new Error(message)\<close>;
  \<open>TypeError\<close> is raised by the language (a property of \<open>undefined\<close>, a call of
  something that is not a function, a property write on a primitive in strict mode);
  \<open>Foreign\<close> is whatever the caller's hook, the chart engine or the canvas library
  raised.
\<close>

datatype js_error = Error string | TypeError string | Foreign string

fun truthy :: "jsval \<Rightarrow> bool" where
  "truthy JUndefined = False"
| "truthy JNull = False"
| "truthy (JBool b) = b"
| "truthy (JNum n) = (n \<noteq> NaN \<and> n \<noteq> Finite 0)"
| "truthy (JStr s) = (s \<noteq> [])"
| "truthy (JObject a) = True"
| "truthy (JFunction a f) = True"

fun typeof :: "jsval \<Rightarrow> string" where
  "typeof JUndefined = ''undefined''"
| "typeof JNull = ''object''"
| "typeof (JBool b) = ''boolean''"
| "typeof (JNum n) = ''number''"
| "typeof (JStr s) = ''string''"
| "typeof (JObject a) = ''object''"
| "typeof (JFunction a f) = ''function''"

fun addr_of :: "jsval \<Rightarrow> addr option" where
  "addr_of (JObject a) = Some a"
| "addr_of (JFunction a f) = Some a"
| "addr_of v = None"

definition obj_at :: "jsobj list \<Rightarrow> addr \<Rightarrow> jsobj" where
  "obj_at h a = (if a < length h then h ! a else [])"

text \<open>
  \<open>get_prop h v k\<close> is the value of \<open>v.k\<close> for a value that is neither \<open>undefined\<close>
  nor \<open>null\<close>: the own property of an object, \<open>undefined\<close> where there is none.
  Objects are plain data: no accessor properties and no prototype chain are modelled.
\<close>

definition get_prop :: "jsobj list \<Rightarrow> jsval \<Rightarrow> string \<Rightarrow> jsval" where
  "get_prop h v k =
     (case addr_of v of
        None \<Rightarrow> JUndefined
      | Some a \<Rightarrow> (case map_of (obj_at h a) k of None \<Rightarrow> JUndefined | Some x \<Rightarrow> x))"

section \<open>The collaborators and the process state\<close>

text \<open>
  The first-party plugin of \<open>index.ts\<close> (lines 28 to 45) holds its identifier and the
  three values its constructor got. Whatever else is registered with the engine is a
  component known by name only.
\<close>

record BackgroundColourPlugin =
  plugin_id :: string
  plugin_width :: jsval
  plugin_height :: jsval
  plugin_fillStyle :: jsval

datatype plugin =
    Background BackgroundColourPlugin
  | Component string

datatype image_class = CanvasImage | ForeignImage

record canvas =
  canvas_width :: jsval
  canvas_height :: jsval
  canvas_style :: jsval

record drawing_state =
  fillStyle :: jsval
  other_attributes :: "(string \<times> jsval) list"

datatype ctx_call =
    Save
  | SetFillStyle jsval
  | FillRect jsval jsval jsval jsval
  | Restore

record context2d =
  ctx_canvas :: canvas
  ctx_state :: drawing_state
  ctx_saved :: "drawing_state list"
  ctx_calls :: "ctx_call list"

record chart =
  chart_canvas :: "canvas option"
  chart_ctx :: context2d

text \<open>
  Every call the class makes into the module loader, the chart engine, the canvas library
  or the process-global object is written to a trace, in the order the calls happen.
\<close>

datatype event =
    Require string
  | Invoke nat nat
  | Register nat plugin
  | CacheDelete string
  | NewCanvas jsval jsval
  | GetContext string
  | SetGlobal string
  | NewChart nat addr
  | DeleteGlobal string
  | Encode string
  | ToBuffer string
  | ToBufferSync string
  | ToDataURL jsval
  | Destroy
  | RegisterFromPath string string
  | FontLibraryUse string "string list"

record world =
  heap :: "jsobj list"
  modules :: "plugin list list"
  require_cache :: "(string \<times> nat) list"
  global_Image :: "image_class option"
  trace :: "event list"

text \<open>
  The code of the collaborators is not part of the repository; what they answer is a
  parameter, and so is the case mapping of the language's \<open>toLowerCase\<close>. The caller's hook may change the registrations of the engine it is handed
  or raise. The engine is constructed on the configuration by reference: it reads the
  process state it is constructed in, may write to the store (chart.js fills in fields of
  the configuration it takes in), and returns a chart or raises; either way it answers
  the store it leaves. A buffer encoder yields its output or raises. The canvas
  constructor and \<open>getContext\<close> are taken to return.

  \<open>toDataURL\<close> is called in two ways. With the mime type alone it returns a value or
  raises; the value is the string itself or a promise of it, as the library has it. With
  a callback as well, the library may raise, may call the callback once with an error or
  with the string, or may never call it: node-canvas calls it, while skia-canvas, which
  the build that has the data-URL methods loads, returns a promise and leaves the
  callback alone. A promise is known by what becomes of it: it resolves, it rejects, or
  it stays pending for ever.
\<close>

datatype 'a promise = Resolved 'a | Rejected js_error | Pending

datatype 'a returned = Plain 'a | Promise "'a promise"

datatype callback_outcome = Throws string | CallsBack "string + string" | NeverCallsBack

record env =
  toLowerCase :: "string \<Rightarrow> string"
  call_function :: "nat \<Rightarrow> plugin list \<Rightarrow> string + plugin list"
  canvas_of :: "jsval \<Rightarrow> jsval \<Rightarrow> canvas"
  context_of :: "canvas \<Rightarrow> string \<Rightarrow> context2d"
  new_chart :: "world \<Rightarrow> nat \<Rightarrow> context2d \<Rightarrow> addr \<Rightarrow> (string + chart) \<times> jsobj list"
  encode :: "canvas \<Rightarrow> string \<Rightarrow> string + nat list"
  toBuffer :: "canvas \<Rightarrow> string \<Rightarrow> string + nat list"
  toBufferSync :: "canvas \<Rightarrow> string \<Rightarrow> string + nat list"
  toDataURL :: "canvas \<Rightarrow> jsval \<Rightarrow> string + string returned"
  toDataURL_callback :: "canvas \<Rightarrow> jsval \<Rightarrow> callback_outcome"

section \<open>Statements: state passing with exceptions\<close>

type_synonym 'a js = "world \<Rightarrow> (js_error + 'a) \<times> world"

definition return :: "'a \<Rightarrow> 'a js" where
  "return x w = (Inr x, w)"

definition throw :: "js_error \<Rightarrow> 'a js" where
  "throw e w = (Inl e, w)"

definition and_then :: "'a js \<Rightarrow> ('a \<Rightarrow> 'b js) \<Rightarrow> 'b js" where
  "and_then m f w = (case m w of (Inl e, w') \<Rightarrow> (Inl e, w') | (Inr x, w') \<Rightarrow> f x w')"

definition emit :: "event \<Rightarrow> unit js" where
  "emit ev w = (Inr (), w\<lparr>trace := trace w @ [ev]\<rparr>)"

definition new_object :: "jsval js" where
  "new_object w = (Inr (JObject (length (heap w))), w\<lparr>heap := heap w @ [[]]\<rparr>)"

definition read_prop :: "jsval \<Rightarrow> string \<Rightarrow> jsval js" where
  "read_prop v k w =
     (if v = JUndefined \<or> v = JNull
      then (Inl (TypeError ''Cannot read properties of undefined or null''), w)
      else (Inr (get_prop (heap w) v k), w))"

text \<open>
  \<open>v.k = x\<close> in strict mode (a class body is strict code): on an object the property is
  set in place; on anything else the write raises.
\<close>

definition write_prop :: "jsval \<Rightarrow> string \<Rightarrow> jsval \<Rightarrow> unit js" where
  "write_prop v k x w =
     (case addr_of v of
        None \<Rightarrow> (Inl (TypeError ''Cannot create property''), w)
      | Some a \<Rightarrow> (Inr (), w\<lparr>heap := (heap w)[a := AList.update k x (obj_at (heap w) a)]\<rparr>))"

text \<open>\<open>v || {}\<close>: the value itself when it is truthy, a new empty object otherwise.\<close>

definition or_new_object :: "jsval \<Rightarrow> jsval js" where
  "or_new_object v = (if truthy v then return v else new_object)"

section \<open>The module loader\<close>

text \<open>
  \<open>require(name)\<close> answers the module the cache holds under the name, and loads a new
  instance (with no registration of this program's yet) into the cache when it holds none.
\<close>

definition require :: "string \<Rightarrow> nat js" where
  "require name w =
     (case map_of (require_cache w) name of
        Some m \<Rightarrow> (Inr m, w\<lparr>trace := trace w @ [Require name]\<rparr>)
      | None \<Rightarrow>
          (Inr (length (modules w)),
           w\<lparr>modules := modules w @ [[]],
             require_cache := (name, length (modules w)) # require_cache w,
             trace := trace w @ [Require name]\<rparr>))"

definition cache_delete :: "string \<Rightarrow> unit js" where
  "cache_delete name w =
     (Inr (), w\<lparr>require_cache := AList.delete name (require_cache w),
                trace := trace w @ [CacheDelete name]\<rparr>)"

definition registry :: "world \<Rightarrow> nat \<Rightarrow> plugin list" where
  "registry w m = (if m < length (modules w) then modules w ! m else [])"

definition register :: "nat \<Rightarrow> plugin \<Rightarrow> unit js" where
  "register m p w =
     (Inr (), w\<lparr>modules := (modules w)[m := registry w m @ [p]],
                trace := trace w @ [Register m p]\<rparr>)"

text \<open>\<open>f(chartJs)\<close> for a value \<open>f\<close>: a call of a function, an error for anything else.\<close>

definition call :: "env \<Rightarrow> jsval \<Rightarrow> nat \<Rightarrow> unit js" where
  "call env f m w =
     (case f of
        JFunction a fid \<Rightarrow>
          (case call_function env fid (registry w m) of
             Inl e \<Rightarrow> (Inl (Foreign e), w\<lparr>trace := trace w @ [Invoke fid m]\<rparr>)
           | Inr reg \<Rightarrow>
               (Inr (), w\<lparr>modules := (modules w)[m := reg],
                          trace := trace w @ [Invoke fid m]\<rparr>))
      | _ \<Rightarrow> (Inl (TypeError ''options.chartCallback is not a function''), w))"

section \<open>BackgroundColourPlugin\<close>

text \<open>
  The canvas context: \<open>save\<close> pushes the drawing state, \<open>restore\<close> pops it (and does
  nothing on an empty stack). The assignment to \<open>fillStyle\<close> is taken to set the style.
  \<open>fillRect\<close> paints pixels, which are no part of the drawing state; the model records
  the call.
\<close>

definition save :: "context2d \<Rightarrow> context2d" where
  "save c = c\<lparr>ctx_saved := ctx_state c # ctx_saved c, ctx_calls := ctx_calls c @ [Save]\<rparr>"

definition restore :: "context2d \<Rightarrow> context2d" where
  "restore c =
     (case ctx_saved c of
        [] \<Rightarrow> c\<lparr>ctx_calls := ctx_calls c @ [Restore]\<rparr>
      | s # ss \<Rightarrow> c\<lparr>ctx_state := s, ctx_saved := ss, ctx_calls := ctx_calls c @ [Restore]\<rparr>)"

definition set_fillStyle :: "jsval \<Rightarrow> context2d \<Rightarrow> context2d" where
  "set_fillStyle v c =
     c\<lparr>ctx_state := (ctx_state c)\<lparr>fillStyle := v\<rparr>, ctx_calls := ctx_calls c @ [SetFillStyle v]\<rparr>"

definition fillRect :: "jsval \<Rightarrow> jsval \<Rightarrow> jsval \<Rightarrow> jsval \<Rightarrow> context2d \<Rightarrow> context2d" where
  "fillRect x y w h c = c\<lparr>ctx_calls := ctx_calls c @ [FillRect x y w h]\<rparr>"

text \<open>\<open>BackgroundColourPlugin.beforeDraw\<close>, \<open>index.ts\<close> lines 37 to 44.\<close>

definition new_BackgroundColourPlugin :: "jsval \<Rightarrow> jsval \<Rightarrow> jsval \<Rightarrow> BackgroundColourPlugin" where
  "new_BackgroundColourPlugin width height fill =
     \<lparr>plugin_id = ''chartjs-plugin-chartjs-node-canvas-background-colour'',
      plugin_width = width, plugin_height = height, plugin_fillStyle = fill\<rparr>"

definition beforeDraw :: "BackgroundColourPlugin \<Rightarrow> chart \<Rightarrow> chart" where
  "beforeDraw this ch =
     (let ctx0 = chart_ctx ch;
          ctx1 = save ctx0;
          ctx2 = set_fillStyle (plugin_fillStyle this) ctx1;
          ctx3 = fillRect (JNum (Finite 0)) (JNum (Finite 0))
                   (plugin_width this) (plugin_height this) ctx2;
          ctx4 = restore ctx3
      in ch\<lparr>chart_ctx := ctx4\<rparr>)"

section \<open>ChartJSNodeCanvas\<close>

record facade =
  facade_width :: jsval
  facade_height :: jsval
  facade_chartJs :: nat
  facade_image :: image_class
  facade_type :: jsval

text \<open>\<open>initialize\<close>, \<open>index.ts\<close> lines 153 to 165.\<close>

definition initialize :: "env \<Rightarrow> jsval \<Rightarrow> nat js" where
  "initialize env options =
     and_then (require ''chart.js'') (\<lambda>chartJs.
     and_then (read_prop options ''chartCallback'') (\<lambda>chartCallback.
     and_then (if truthy chartCallback then call env chartCallback chartJs else return ()) (\<lambda>_.
     and_then (read_prop options ''width'') (\<lambda>width.
     and_then (read_prop options ''height'') (\<lambda>height.
     and_then (register chartJs
        (Background (new_BackgroundColourPlugin width height (JStr ''#fff'')))) (\<lambda>_.
     and_then (cache_delete ''chart.js'') (\<lambda>_.
     return chartJs)))))))"

text \<open>
  \<open>initialize\<close> of the compiled build without the plugin class (the second unnamed
  source file, lines 100 to 107): the same, with no registration.
\<close>

definition initialize_no_plugin :: "env \<Rightarrow> jsval \<Rightarrow> nat js" where
  "initialize_no_plugin env options =
     and_then (require ''chart.js'') (\<lambda>chartJs.
     and_then (read_prop options ''chartCallback'') (\<lambda>chartCallback.
     and_then (if truthy chartCallback then call env chartCallback chartJs else return ()) (\<lambda>_.
     and_then (cache_delete ''chart.js'') (\<lambda>_.
     return chartJs))))"

text \<open>
  \<open>options.type && options.type.toLowerCase()\<close>: a falsy value stays, a string is
  lowered, and any other value has no such method (an object that brings a
  \<open>toLowerCase\<close> of its own is not modelled).
\<close>

definition lowered_type :: "env \<Rightarrow> jsval \<Rightarrow> jsval js" where
  "lowered_type env t =
     (if \<not> truthy t then return t
      else case t of
        JStr s \<Rightarrow> return (JStr (toLowerCase env s))
      | _ \<Rightarrow> throw (TypeError ''options.type.toLowerCase is not a function''))"

text \<open>The constructor, \<open>index.ts\<close> lines 96 to 113.\<close>

definition constructor :: "env \<Rightarrow> jsval \<Rightarrow> facade js" where
  "constructor env options =
     (if options = JNull \<or> typeof options \<noteq> ''object''
      then throw (Error ''An options parameter object is required'')
      else
        and_then (read_prop options ''width'') (\<lambda>width.
        if \<not> truthy width \<or> typeof width \<noteq> ''number''
        then throw (Error ''A width option is required'')
        else
          and_then (read_prop options ''height'') (\<lambda>height.
          if \<not> truthy height \<or> typeof height \<noteq> ''number''
          then throw (Error ''A height option is required'')
          else
            and_then (read_prop options ''type'') (\<lambda>t.
            and_then (lowered_type env t) (\<lambda>type'.
            and_then (initialize env options) (\<lambda>chartJs.
            return \<lparr>facade_width = width, facade_height = height, facade_chartJs = chartJs,
                    facade_image = CanvasImage, facade_type = type'\<rparr>))))))"

text \<open>\<open>renderChart\<close>, \<open>index.ts\<close> lines 167 to 179 (the same in both builds).\<close>

definition construct_chart :: "env \<Rightarrow> nat \<Rightarrow> context2d \<Rightarrow> addr \<Rightarrow> chart js" where
  "construct_chart env m context configuration w =
     (case new_chart env w m context configuration of
        (Inl e, h) \<Rightarrow>
          (Inl (Foreign e), w\<lparr>heap := h, trace := trace w @ [NewChart m configuration]\<rparr>)
      | (Inr ch, h) \<Rightarrow>
          (Inr ch, w\<lparr>heap := h, trace := trace w @ [NewChart m configuration]\<rparr>))"

definition set_global_Image :: "image_class \<Rightarrow> unit js" where
  "set_global_Image i w =
     (Inr (), w\<lparr>global_Image := Some i, trace := trace w @ [SetGlobal ''Image'']\<rparr>)"

definition delete_global_Image :: "unit js" where
  "delete_global_Image w =
     (Inr (), w\<lparr>global_Image := None, trace := trace w @ [DeleteGlobal ''Image'']\<rparr>)"

definition new_Canvas :: "env \<Rightarrow> jsval \<Rightarrow> jsval \<Rightarrow> canvas js" where
  "new_Canvas env width height w =
     (Inr (canvas_of env width height), w\<lparr>trace := trace w @ [NewCanvas width height]\<rparr>)"

definition getContext :: "env \<Rightarrow> canvas \<Rightarrow> string \<Rightarrow> context2d js" where
  "getContext env cv kind w =
     (Inr (context_of env cv kind), w\<lparr>trace := trace w @ [GetContext kind]\<rparr>)"

definition renderChart :: "env \<Rightarrow> facade \<Rightarrow> addr \<Rightarrow> chart js" where
  "renderChart env self configuration =
     and_then (new_Canvas env (facade_width self) (facade_height self)) (\<lambda>canvas0.
     and_then (or_new_object (canvas_style canvas0)) (\<lambda>style.
     and_then (read_prop (JObject configuration) ''options'') (\<lambda>options0.
     and_then (or_new_object options0) (\<lambda>options1.
     and_then (write_prop (JObject configuration) ''options'' options1) (\<lambda>_.
     and_then (read_prop (JObject configuration) ''options'') (\<lambda>options2.
     and_then (write_prop options2 ''responsive'' (JBool False)) (\<lambda>_.
     and_then (read_prop (JObject configuration) ''options'') (\<lambda>options3.
     and_then (write_prop options3 ''animation'' (JBool False)) (\<lambda>_.
     and_then (getContext env (canvas0\<lparr>canvas_style := style\<rparr>) ''2d'') (\<lambda>context.
     and_then (set_global_Image (facade_image self)) (\<lambda>_.
     and_then (construct_chart env (facade_chartJs self) context configuration) (\<lambda>ch.
     and_then delete_global_Image (\<lambda>_.
     return ch)))))))))))))"

text \<open>
  The body of \<open>renderChart\<close> in three parts, named for the proofs: the canvas (lines 168
  and 169), the writes to the configuration (lines 171 to 173), and the construction of
  the chart between the two writes to the global object (lines 174 to 178).
\<close>

definition make_canvas :: "env \<Rightarrow> facade \<Rightarrow> canvas js" where
  "make_canvas env self =
     and_then (new_Canvas env (facade_width self) (facade_height self)) (\<lambda>canvas0.
     and_then (or_new_object (canvas_style canvas0)) (\<lambda>style.
     return (canvas0\<lparr>canvas_style := style\<rparr>)))"

definition force_options :: "addr \<Rightarrow> unit js" where
  "force_options configuration =
     and_then (read_prop (JObject configuration) ''options'') (\<lambda>options0.
     and_then (or_new_object options0) (\<lambda>options1.
     and_then (write_prop (JObject configuration) ''options'' options1) (\<lambda>_.
     and_then (read_prop (JObject configuration) ''options'') (\<lambda>options2.
     and_then (write_prop options2 ''responsive'' (JBool False)) (\<lambda>_.
     and_then (read_prop (JObject configuration) ''options'') (\<lambda>options3.
     write_prop options3 ''animation'' (JBool False)))))))"

definition paint :: "env \<Rightarrow> facade \<Rightarrow> canvas \<Rightarrow> addr \<Rightarrow> chart js" where
  "paint env self cv configuration =
     and_then (getContext env cv ''2d'') (\<lambda>context.
     and_then (set_global_Image (facade_image self)) (\<lambda>_.
     and_then (construct_chart env (facade_chartJs self) context configuration) (\<lambda>ch.
     and_then delete_global_Image (\<lambda>_.
     return ch))))"

text \<open>\<open>renderToBuffer\<close> and \<open>renderToBufferSync\<close>, \<open>index.ts\<close> lines 123 to 139.\<close>

definition renderToBuffer :: "env \<Rightarrow> facade \<Rightarrow> addr \<Rightarrow> nat list promise js" where
  "renderToBuffer env self configuration =
     and_then (renderChart env self configuration) (\<lambda>ch.
     case chart_canvas ch of
       None \<Rightarrow> throw (TypeError ''Cannot read properties of null'')
     | Some cv \<Rightarrow>
         and_then (emit (Encode ''png'')) (\<lambda>_.
         return (case encode env cv ''png'' of
                   Inl e \<Rightarrow> Rejected (Foreign e)
                 | Inr b \<Rightarrow> Resolved b)))"

definition renderToBufferSync :: "env \<Rightarrow> facade \<Rightarrow> addr \<Rightarrow> nat list js" where
  "renderToBufferSync env self configuration =
     and_then (renderChart env self configuration) (\<lambda>ch.
     case chart_canvas ch of
       None \<Rightarrow> throw (TypeError ''Cannot read properties of null'')
     | Some cv \<Rightarrow>
         and_then (emit (ToBuffer ''image/png'')) (\<lambda>_.
         case toBuffer env cv ''image/png'' of
           Inl e \<Rightarrow> throw (Foreign e)
         | Inr b \<Rightarrow> return b))"

text \<open>
  The same two methods in the compiled builds (second unnamed source file, lines 74 to
  88), which call \<open>toBuffer('png')\<close> and \<open>toBufferSync('png')\<close> of another canvas
  library.
\<close>

definition renderToBuffer_build :: "env \<Rightarrow> facade \<Rightarrow> addr \<Rightarrow> nat list promise js" where
  "renderToBuffer_build env self configuration =
     and_then (renderChart env self configuration) (\<lambda>ch.
     case chart_canvas ch of
       None \<Rightarrow> throw (TypeError ''Cannot read properties of null'')
     | Some cv \<Rightarrow>
         and_then (emit (ToBuffer ''png'')) (\<lambda>_.
         return (case toBuffer env cv ''png'' of
                   Inl e \<Rightarrow> Rejected (Foreign e)
                 | Inr b \<Rightarrow> Resolved b)))"

definition renderToBufferSync_build :: "env \<Rightarrow> facade \<Rightarrow> addr \<Rightarrow> nat list js" where
  "renderToBufferSync_build env self configuration =
     and_then (renderChart env self configuration) (\<lambda>ch.
     case chart_canvas ch of
       None \<Rightarrow> throw (TypeError ''Cannot read properties of null'')
     | Some cv \<Rightarrow>
         and_then (emit (ToBufferSync ''png'')) (\<lambda>_.
         case toBufferSync env cv ''png'' of
           Inl e \<Rightarrow> throw (Foreign e)
         | Inr b \<Rightarrow> return b))"

text \<open>
  \<open>renderToDataURL\<close> and \<open>renderToDataURLSync\<close> (second unnamed source file, lines 34
  to 66). The chart is painted before the promise is made, so an error of
  \<open>renderChart\<close> is thrown, not a rejection. \<open>mimeType\<close> defaults to \<open>image/png\<close>.
  In \<open>renderToDataURL\<close> the chart is destroyed and the promise settled inside the
  callback, so neither happens when the library never calls it; an error the library
  raises inside the promise's executor rejects the promise. \<open>renderToDataURLSync\<close>
  returns what \<open>toDataURL\<close> returned.
\<close>

definition default_mimeType :: "jsval \<Rightarrow> jsval" where
  "default_mimeType mimeType = (if mimeType = JUndefined then JStr ''image/png'' else mimeType)"

definition renderToDataURL :: "env \<Rightarrow> facade \<Rightarrow> addr \<Rightarrow> jsval \<Rightarrow> string promise js" where
  "renderToDataURL env self configuration mimeType =
     and_then (renderChart env self configuration) (\<lambda>ch.
     case chart_canvas ch of
       None \<Rightarrow> return (Rejected (Error ''Canvas is null''))
     | Some cv \<Rightarrow>
         and_then (emit (ToDataURL (default_mimeType mimeType))) (\<lambda>_.
         case toDataURL_callback env cv (default_mimeType mimeType) of
           Throws e \<Rightarrow> return (Rejected (Foreign e))
         | NeverCallsBack \<Rightarrow> return Pending
         | CallsBack r \<Rightarrow>
             and_then (emit Destroy) (\<lambda>_.
             return (case r of
                       Inl error \<Rightarrow> Rejected (Foreign error)
                     | Inr png \<Rightarrow> Resolved png))))"

definition renderToDataURLSync ::
  "env \<Rightarrow> facade \<Rightarrow> addr \<Rightarrow> jsval \<Rightarrow> string returned js" where
  "renderToDataURLSync env self configuration mimeType =
     and_then (renderChart env self configuration) (\<lambda>ch.
     case chart_canvas ch of
       None \<Rightarrow> throw (Error ''Canvas is null'')
     | Some cv \<Rightarrow>
         and_then (emit (ToDataURL (default_mimeType mimeType))) (\<lambda>_.
         case toDataURL env cv (default_mimeType mimeType) of
           Inl e \<Rightarrow> throw (Foreign e)
         | Inr dataUrl \<Rightarrow> and_then (emit Destroy) (\<lambda>_. return dataUrl)))"

text \<open>\<open>registerFont\<close>, \<open>index.ts\<close> lines 149 to 151.\<close>

record font_options =
  font_family :: string
  font_weight :: "string option"
  font_style :: "string option"

definition registerFont :: "facade \<Rightarrow> string \<Rightarrow> font_options \<Rightarrow> unit js" where
  "registerFont self path options = emit (RegisterFromPath path (font_family options))"

text \<open>The same method in the compiled builds: \<open>FontLibrary.use(options.family, [path])\<close>.\<close>

definition registerFont_build :: "facade \<Rightarrow> string \<Rightarrow> font_options \<Rightarrow> unit js" where
  "registerFont_build self path options = emit (FontLibraryUse (font_family options) [path])"

section \<open>Reading a trace\<close>

text \<open>The calls a run added to the trace, and the format an encoder call asked for.\<close>

definition new_events :: "world \<Rightarrow> world \<Rightarrow> event list" where
  "new_events w w' = drop (length (trace w)) (trace w')"

fun requested_format :: "event \<Rightarrow> jsval option" where
  "requested_format (Encode f) = Some (JStr f)"
| "requested_format (ToBuffer f) = Some (JStr f)"
| "requested_format (ToBufferSync f) = Some (JStr f)"
| "requested_format (ToDataURL v) = Some v"
| "requested_format ev = None"

section \<open>Example inputs\<close>

text \<open>
  An engine for the examples, after what chart.js 3 does with a configuration: taking it
  in, it sets \<open>data\<close> (a new record when there is none), \<open>options\<close> likewise,
  \<open>options.plugins\<close> (a new record when undefined) and \<open>options.scales\<close> (always a new
  record) of the caller's object; it then looks up a controller for each dataset, by the
  type of the dataset or else of the configuration, and raises when none is registered.
  The example knows line and bar charts and looks at the first dataset: a configuration
  without datasets is painted whatever its type.
\<close>

definition engine_takes_in :: "addr \<Rightarrow> unit js" where
  "engine_takes_in config =
     and_then (read_prop (JObject config) ''data'') (\<lambda>data0.
     and_then (or_new_object data0) (\<lambda>data.
     and_then (write_prop (JObject config) ''data'' data) (\<lambda>_.
     and_then (read_prop (JObject config) ''options'') (\<lambda>options0.
     and_then (or_new_object options0) (\<lambda>options.
     and_then (write_prop (JObject config) ''options'' options) (\<lambda>_.
     and_then (read_prop options ''plugins'') (\<lambda>plugins0.
     and_then (if plugins0 = JUndefined then new_object else return plugins0) (\<lambda>plugins.
     and_then (write_prop options ''plugins'' plugins) (\<lambda>_.
     and_then new_object (\<lambda>scales.
     write_prop options ''scales'' scales))))))))))"

definition first_dataset :: "jsobj list \<Rightarrow> addr \<Rightarrow> jsval" where
  "first_dataset h config =
     get_prop h (get_prop h (get_prop h (JObject config) ''data'') ''datasets'') ''0''"

definition controller_type :: "jsobj list \<Rightarrow> addr \<Rightarrow> jsval" where
  "controller_type h config =
     (if truthy (get_prop h (first_dataset h config) ''type'')
      then get_prop h (first_dataset h config) ''type''
      else get_prop h (JObject config) ''type'')"

definition example_engine ::
  "world \<Rightarrow> nat \<Rightarrow> context2d \<Rightarrow> addr \<Rightarrow> (string + chart) \<times> jsobj list" where
  "example_engine w m c config =
     (if addr_of (first_dataset (heap w) config) = None
         \<or> controller_type (heap w) config = JStr ''line''
         \<or> controller_type (heap w) config = JStr ''bar''
      then Inr \<lparr>chart_canvas = Some (ctx_canvas c), chart_ctx = c\<rparr>
      else Inl ''not a registered controller'',
      heap (snd (engine_takes_in config w)))"

text \<open>The case mapping of the examples lowers the letters A to Z and leaves the rest.\<close>

definition lower_ascii :: "string \<Rightarrow> string" where
  "lower_ascii s =
     map (\<lambda>c. if (65::nat) \<le> of_char c \<and> of_char c \<le> (90::nat)
              then char_of (of_char c + (32::nat)) else c) s"

text \<open>
  Collaborators for the examples: the hook registers nothing, a new canvas has no
  \<open>style\<close>, the engine is the one above, the buffer encoders return fixed output, and
  \<open>toDataURL\<close> answers as skia-canvas does: it returns a promise, and leaves a callback
  alone.
\<close>

definition quiet_env :: env where
  "quiet_env =
     \<lparr>toLowerCase = lower_ascii,
      call_function = (\<lambda>f reg. Inr reg),
      canvas_of = (\<lambda>width height.
        \<lparr>canvas_width = width, canvas_height = height, canvas_style = JUndefined\<rparr>),
      context_of = (\<lambda>cv kind.
        \<lparr>ctx_canvas = cv,
         ctx_state = \<lparr>fillStyle = JStr ''#000000'', other_attributes = []\<rparr>,
         ctx_saved = [], ctx_calls = []\<rparr>),
      new_chart = example_engine,
      encode = (\<lambda>cv format. Inr [137, 80, 78, 71]),
      toBuffer = (\<lambda>cv format. Inr [137, 80, 78, 71]),
      toBufferSync = (\<lambda>cv format. Inr [137, 80, 78, 71]),
      toDataURL = (\<lambda>cv mimeType. Inr (Promise (Resolved ''data:image/png;base64,iVBORw0KGgo=''))),
      toDataURL_callback = (\<lambda>cv mimeType. NeverCallsBack)\<rparr>"

definition example_facade :: facade where
  "example_facade =
     \<lparr>facade_width = JNum (Finite 400), facade_height = JNum (Finite 300), facade_chartJs = 0,
      facade_image = CanvasImage, facade_type = JUndefined\<rparr>"

text \<open>
  A process in which one engine module is loaded and the store holds, at address 0, the
  configuration \<open>{type: 'line'}\<close>.
\<close>

definition example_world :: world where
  "example_world =
     \<lparr>heap = [[(''type'', JStr ''line'')]],
      modules = [[Background (new_BackgroundColourPlugin (JNum (Finite 400)) (JNum (Finite 300)) (JStr ''#fff''))]],
      require_cache = [], global_Image = None, trace = []\<rparr>"

text \<open>
  The same process with the configuration
  \<open>{type: 'nonexistent', data: {datasets: [{data: [1]}]}}\<close> at address 0.
\<close>

definition unknown_type_world :: world where
  "unknown_type_world =
     example_world\<lparr>heap :=
       [[(''type'', JStr ''nonexistent''), (''data'', JObject 1)],
        [(''datasets'', JObject 2)],
        [(''0'', JObject 3), (''length'', JNum (Finite 1))],
        [(''data'', JObject 4)],
        [(''0'', JNum (Finite 1)), (''length'', JNum (Finite 1))]]\<rparr>"

text \<open>
  The store holds, at address 0, the configuration
  \<open>{type: 'bar', options: {responsive: true, scales: {}}}\<close>.
\<close>

definition configured_world :: world where
  "configured_world =
     \<lparr>heap = [[(''type'', JStr ''bar''), (''options'', JObject 1)],
              [(''responsive'', JBool True), (''scales'', JObject 2)],
              []],
      modules = [[]], require_cache = [], global_Image = None, trace = []\<rparr>"

text \<open>
  A process with nothing loaded whose store holds one options object at address 0, and at
  address 1 the object of a function the options may name as their hook.
\<close>

definition options_world :: "jsobj \<Rightarrow> world" where
  "options_world options =
     \<lparr>heap = [options, []], modules = [], require_cache = [], global_Image = None, trace = []\<rparr>"

text \<open>
  A process in which other code has loaded the engine and registered a component with it
  before the class is constructed.
\<close>

definition preloaded_world :: "jsobj \<Rightarrow> world" where
  "preloaded_world options =
     \<lparr>heap = [options, []], modules = [[Component ''annotation'']],
      require_cache = [(''chart.js'', 0)], global_Image = None, trace = []\<rparr>"

section \<open>Basic facts\<close>

lemmas js_defs = return_def throw_def and_then_def emit_def new_object_def read_prop_def
  write_prop_def or_new_object_def

lemmas init_defs = initialize_def require_def cache_delete_def register_def call_def

lemma typeof_object_cases:
  "v \<noteq> JNull \<Longrightarrow> typeof v = ''object'' \<Longrightarrow> \<exists>a. v = JObject a"
  by (cases v) simp_all

lemma and_then_assoc: "and_then (and_then m f) g = and_then m (\<lambda>x. and_then (f x) g)"
  by (rule ext) (simp add: and_then_def split: prod.splits sum.splits)

lemma and_then_return: "and_then (return x) f = f x"
  by (rule ext) (simp add: and_then_def return_def)

subsection \<open>Reading the store after a write\<close>

lemma obj_at_update: "obj_at (h[a := x]) b = (if b = a \<and> a < length h then x else obj_at h b)"
  by (simp add: obj_at_def)

lemma obj_at_append: "set xs \<subseteq> {[]} \<Longrightarrow> obj_at (h @ xs) b = obj_at h b"
  by (auto simp: obj_at_def nth_append subset_iff dest: nth_mem)

lemma get_prop_append: "set xs \<subseteq> {[]} \<Longrightarrow> get_prop (h @ xs) v k = get_prop h v k"
  by (simp add: get_prop_def obj_at_append split: option.splits)

lemma get_prop_list_update:
  "get_prop (h[a := obj]) v k =
     (if addr_of v = Some a \<and> a < length h
      then (case map_of obj k of None \<Rightarrow> JUndefined | Some x \<Rightarrow> x)
      else get_prop h v k)"
  by (auto simp: get_prop_def obj_at_update split: option.splits)

lemma lookup_update:
  "(case map_of (AList.update k x al) k' of None \<Rightarrow> JUndefined | Some y \<Rightarrow> y) =
     (if k' = k then x else (case map_of al k' of None \<Rightarrow> JUndefined | Some y \<Rightarrow> y))"
  by (simp add: update_conv')

lemma lookup_obj_at:
  "(case map_of (obj_at h a) k of None \<Rightarrow> JUndefined | Some y \<Rightarrow> y) = get_prop h (JObject a) k"
  by (simp add: get_prop_def)

lemmas heap_simps = get_prop_append get_prop_list_update lookup_update lookup_obj_at

lemma map_of_delete_same: "map_of (AList.delete k al) k = None"
  by (simp add: delete_conv')

subsection \<open>The parts of \<open>renderChart\<close>\<close>

lemma renderChart_stages:
  "renderChart env self c =
     and_then (make_canvas env self) (\<lambda>cv. and_then (force_options c) (\<lambda>_. paint env self cv c))"
  by (simp add: renderChart_def make_canvas_def force_options_def paint_def and_then_assoc
      and_then_return)

lemma make_canvas_result:
  "\<exists>cv S. set S \<subseteq> {[]} \<and> make_canvas env self w =
     (Inr cv, w\<lparr>heap := heap w @ S,
               trace := trace w @ [NewCanvas (facade_width self) (facade_height self)]\<rparr>)"
proof (cases "truthy (canvas_style (canvas_of env (facade_width self) (facade_height self)))")
  case True
  then show ?thesis
    by (intro exI[of _ "canvas_of env (facade_width self) (facade_height self)"] exI[of _ "[]"])
       (simp add: make_canvas_def new_Canvas_def js_defs)
next
  case False
  then show ?thesis
    by (intro exI[of _ "(canvas_of env (facade_width self) (facade_height self))
                          \<lparr>canvas_style := JObject (length (heap w))\<rparr>"] exI[of _ "[[]]"])
       (simp add: make_canvas_def new_Canvas_def js_defs)
qed

lemma paint_result:
  "paint env self cv c w =
     (case new_chart env
         (w\<lparr>global_Image := Some (facade_image self),
            trace := trace w @ [GetContext ''2d'', SetGlobal ''Image'']\<rparr>)
         (facade_chartJs self) (context_of env cv ''2d'') c of
        (Inl e, h) \<Rightarrow>
          (Inl (Foreign e),
           w\<lparr>heap := h, global_Image := Some (facade_image self),
             trace := trace w @ [GetContext ''2d'', SetGlobal ''Image'',
                                 NewChart (facade_chartJs self) c]\<rparr>)
      | (Inr ch, h) \<Rightarrow>
          (Inr ch,
           w\<lparr>heap := h, global_Image := None,
             trace := trace w @ [GetContext ''2d'', SetGlobal ''Image'',
                                 NewChart (facade_chartJs self) c, DeleteGlobal ''Image'']\<rparr>))"
  by (simp add: paint_def getContext_def set_global_Image_def construct_chart_def
      delete_global_Image_def js_defs split: sum.splits prod.splits)

lemma force_options_frame: "\<exists>h. snd (force_options c w) = w\<lparr>heap := h\<rparr>"
  by (auto simp: force_options_def js_defs split: option.splits intro: exI[of _ "heap w"])

lemma force_options_errors:
  "fst (force_options c w) = Inl e \<Longrightarrow> \<exists>msg. e = TypeError msg"
  by (auto simp: force_options_def js_defs split: option.splits if_splits)

lemma force_options_effect:
  assumes c: "c < length (heap w)"
    and o: "\<not> truthy (get_prop (heap w) (JObject c) ''options'') \<or>
            (\<exists>a. addr_of (get_prop (heap w) (JObject c) ''options'') = Some a \<and> a < length (heap w))"
  shows "fst (force_options c w) = Inr () \<and>
    (\<exists>a. addr_of (get_prop (heap (snd (force_options c w))) (JObject c) ''options'') = Some a
       \<and> (if truthy (get_prop (heap w) (JObject c) ''options'')
           then get_prop (heap (snd (force_options c w))) (JObject c) ''options'' =
                get_prop (heap w) (JObject c) ''options''
           else get_prop (heap (snd (force_options c w))) (JObject c) ''options'' =
                JObject (length (heap w)))
       \<and> get_prop (heap (snd (force_options c w))) (JObject a) ''responsive'' = JBool False
       \<and> get_prop (heap (snd (force_options c w))) (JObject a) ''animation'' = JBool False
       \<and> (\<forall>b k. (b, k) \<notin> {(c, ''options''), (a, ''responsive''), (a, ''animation'')} \<longrightarrow>
             get_prop (heap (snd (force_options c w))) (JObject b) k =
             get_prop (heap w) (JObject b) k))"
proof (cases "truthy (get_prop (heap w) (JObject c) ''options'')")
  case True
  with o obtain a where a: "addr_of (get_prop (heap w) (JObject c) ''options'') = Some a"
    "a < length (heap w)" by blast
  show ?thesis
    using True a c
    by (intro conjI exI[of _ a]) (auto simp: force_options_def js_defs heap_simps)
next
  case False
  show ?thesis
    using False c
    by (intro conjI exI[of _ "length (heap w)"]) (auto simp: force_options_def js_defs heap_simps)
qed

lemma renderChart_result:
  "\<exists>cv S h W. set S \<subseteq> {[]}
     \<and> W = w\<lparr>heap := heap w @ S,
              trace := trace w @ [NewCanvas (facade_width self) (facade_height self)]\<rparr>
     \<and> snd (force_options c W) = W\<lparr>heap := h\<rparr>
     \<and> renderChart env self c w =
         (case fst (force_options c W) of
            Inl e \<Rightarrow> (Inl e, W\<lparr>heap := h\<rparr>)
          | Inr u \<Rightarrow> paint env self cv c (W\<lparr>heap := h\<rparr>))"
proof -
  obtain cv S where S: "set S \<subseteq> {[]}" and mk: "make_canvas env self w =
     (Inr cv, w\<lparr>heap := heap w @ S,
               trace := trace w @ [NewCanvas (facade_width self) (facade_height self)]\<rparr>)"
    using make_canvas_result[of env self w] by blast
  define W where "W = w\<lparr>heap := heap w @ S,
     trace := trace w @ [NewCanvas (facade_width self) (facade_height self)]\<rparr>"
  obtain h where h: "snd (force_options c W) = W\<lparr>heap := h\<rparr>"
    using force_options_frame[of c W] by blast
  have "renderChart env self c w =
         (case fst (force_options c W) of
            Inl e \<Rightarrow> (Inl e, W\<lparr>heap := h\<rparr>)
          | Inr u \<Rightarrow> paint env self cv c (W\<lparr>heap := h\<rparr>))"
    using mk h
    by (cases "force_options c W")
       (auto simp: renderChart_stages and_then_def W_def split: sum.splits)
  with S h W_def show ?thesis by blast
qed

lemma renderChart_errors:
  assumes "fst (renderChart env self c w) = Inl e"
  shows "(\<exists>msg. e = TypeError msg) \<or> (\<exists>s. e = Foreign s)"
proof -
  obtain cv S h W where r: "renderChart env self c w =
         (case fst (force_options c W) of
            Inl e \<Rightarrow> (Inl e, W\<lparr>heap := h\<rparr>)
          | Inr u \<Rightarrow> paint env self cv c (W\<lparr>heap := h\<rparr>))"
    using renderChart_result[of w self c env] by blast
  show ?thesis
  proof (cases "fst (force_options c W)")
    case (Inl e')
    with r assms have "e = e'" by simp
    with Inl force_options_errors[of c W e'] show ?thesis by simp
  next
    case (Inr u)
    with r assms show ?thesis by (auto simp: paint_result split: sum.splits prod.splits)
  qed
qed

subsection \<open>\<open>initialize\<close>\<close>

text \<open>The build without the plugin class makes the same calls but the registration.\<close>

lemma initialize_no_plugin_steps:
  assumes "initialize_no_plugin env options w = (Inr m, w')"
  shows "new_events w w' =
           Require ''chart.js'' #
           (case get_prop (heap w) options ''chartCallback'' of
              JFunction a f \<Rightarrow> [Invoke f m] | _ \<Rightarrow> []) @
           [CacheDelete ''chart.js'']"
  using assms
  by (auto simp: initialize_no_plugin_def require_def cache_delete_def call_def js_defs
      new_events_def split: option.splits if_splits jsval.splits sum.splits)

lemma initialize_errors:
  "initialize env options w = (Inl e, w') \<Longrightarrow> (\<exists>msg. e = TypeError msg) \<or> (\<exists>s. e = Foreign s)"
  by (auto simp: init_defs js_defs split: option.splits if_splits jsval.splits sum.splits)

lemma initialize_succeeds:
  assumes "options \<noteq> JUndefined" "options \<noteq> JNull"
    and "\<not> truthy (get_prop (heap w) options ''chartCallback'') \<or>
         (\<exists>a f. get_prop (heap w) options ''chartCallback'' = JFunction a f \<and>
                (\<forall>reg. \<exists>reg'. call_function env f reg = Inr reg'))"
  shows "\<exists>m w'. initialize env options w = (Inr m, w')"
proof (cases "truthy (get_prop (heap w) options ''chartCallback'')")
  case False
  then show ?thesis using assms(1,2)
    by (auto simp: init_defs js_defs split: option.splits)
next
  case True
  with assms(3) obtain a f where cb: "get_prop (heap w) options ''chartCallback'' = JFunction a f"
    and ok: "\<forall>reg. \<exists>reg'. call_function env f reg = Inr reg'" by blast
  have "\<exists>m w1. require ''chart.js'' w = (Inr m, w1) \<and> heap w1 = heap w"
    by (cases "map_of (require_cache w) ''chart.js''") (simp_all add: require_def)
  then obtain m w1 where r: "require ''chart.js'' w = (Inr m, w1)" "heap w1 = heap w"
    by blast
  from ok obtain reg' where "call_function env f (registry w1 m) = Inr reg'" by blast
  then show ?thesis using assms(1,2) cb r
    by (simp add: initialize_def call_def register_def cache_delete_def js_defs)
qed

text \<open>
  The calls \<open>initialize\<close> has made when it returns, in their order, and the module it
  returns: a newly loaded one when the cache held no entry for the engine, the cached one
  otherwise.
\<close>

lemma initialize_steps:
  assumes "initialize env options w = (Inr m, w')"
  shows "new_events w w' =
           Require ''chart.js'' #
           (case get_prop (heap w) options ''chartCallback'' of
              JFunction a f \<Rightarrow> [Invoke f m] | _ \<Rightarrow> []) @
           [Register m (Background (new_BackgroundColourPlugin
               (get_prop (heap w) options ''width'') (get_prop (heap w) options ''height'')
               (JStr ''#fff''))),
            CacheDelete ''chart.js'']
       \<and> map_of (require_cache w') ''chart.js'' = None
       \<and> m = (case map_of (require_cache w) ''chart.js'' of
                None \<Rightarrow> length (modules w) | Some m0 \<Rightarrow> m0)"
  using assms
  by (auto simp: init_defs js_defs new_events_def map_of_delete_same
      split: option.splits if_splits jsval.splits sum.splits)

subsection \<open>The render methods\<close>


lemma renderToBuffer_unfold:
  "renderToBuffer env self c w =
     (case renderChart env self c w of
        (Inl e, w1) \<Rightarrow> (Inl e, w1)
      | (Inr ch, w1) \<Rightarrow>
          (case chart_canvas ch of
             None \<Rightarrow> (Inl (TypeError ''Cannot read properties of null''), w1)
           | Some cv \<Rightarrow>
               (Inr (case encode env cv ''png'' of
                       Inl e \<Rightarrow> Rejected (Foreign e) | Inr b \<Rightarrow> Resolved b),
                w1\<lparr>trace := trace w1 @ [Encode ''png'']\<rparr>)))"
  by (simp add: renderToBuffer_def js_defs split: prod.splits sum.splits option.splits)

lemma renderToBufferSync_unfold:
  "renderToBufferSync env self c w =
     (case renderChart env self c w of
        (Inl e, w1) \<Rightarrow> (Inl e, w1)
      | (Inr ch, w1) \<Rightarrow>
          (case chart_canvas ch of
             None \<Rightarrow> (Inl (TypeError ''Cannot read properties of null''), w1)
           | Some cv \<Rightarrow>
               ((case toBuffer env cv ''image/png'' of
                   Inl e \<Rightarrow> Inl (Foreign e) | Inr b \<Rightarrow> Inr b),
                w1\<lparr>trace := trace w1 @ [ToBuffer ''image/png'']\<rparr>)))"
  by (simp add: renderToBufferSync_def js_defs split: prod.splits sum.splits option.splits)

lemma renderToBuffer_build_unfold:
  "renderToBuffer_build env self c w =
     (case renderChart env self c w of
        (Inl e, w1) \<Rightarrow> (Inl e, w1)
      | (Inr ch, w1) \<Rightarrow>
          (case chart_canvas ch of
             None \<Rightarrow> (Inl (TypeError ''Cannot read properties of null''), w1)
           | Some cv \<Rightarrow>
               (Inr (case toBuffer env cv ''png'' of
                       Inl e \<Rightarrow> Rejected (Foreign e) | Inr b \<Rightarrow> Resolved b),
                w1\<lparr>trace := trace w1 @ [ToBuffer ''png'']\<rparr>)))"
  by (simp add: renderToBuffer_build_def js_defs split: prod.splits sum.splits option.splits)

lemma renderToBufferSync_build_unfold:
  "renderToBufferSync_build env self c w =
     (case renderChart env self c w of
        (Inl e, w1) \<Rightarrow> (Inl e, w1)
      | (Inr ch, w1) \<Rightarrow>
          (case chart_canvas ch of
             None \<Rightarrow> (Inl (TypeError ''Cannot read properties of null''), w1)
           | Some cv \<Rightarrow>
               ((case toBufferSync env cv ''png'' of
                   Inl e \<Rightarrow> Inl (Foreign e) | Inr b \<Rightarrow> Inr b),
                w1\<lparr>trace := trace w1 @ [ToBufferSync ''png'']\<rparr>)))"
  by (simp add: renderToBufferSync_build_def js_defs split: prod.splits sum.splits option.splits)

lemma renderToDataURL_unfold:
  "renderToDataURL env self c mimeType w =
     (case renderChart env self c w of
        (Inl e, w1) \<Rightarrow> (Inl e, w1)
      | (Inr ch, w1) \<Rightarrow>
          (case chart_canvas ch of
             None \<Rightarrow> (Inr (Rejected (Error ''Canvas is null'')), w1)
           | Some cv \<Rightarrow>
               (case toDataURL_callback env cv (default_mimeType mimeType) of
                  Throws e \<Rightarrow>
                    (Inr (Rejected (Foreign e)),
                     w1\<lparr>trace := trace w1 @ [ToDataURL (default_mimeType mimeType)]\<rparr>)
                | NeverCallsBack \<Rightarrow>
                    (Inr Pending,
                     w1\<lparr>trace := trace w1 @ [ToDataURL (default_mimeType mimeType)]\<rparr>)
                | CallsBack r \<Rightarrow>
                    (Inr (case r of Inl error \<Rightarrow> Rejected (Foreign error)
                                  | Inr png \<Rightarrow> Resolved png),
                     w1\<lparr>trace := trace w1 @ [ToDataURL (default_mimeType mimeType),
                                              Destroy]\<rparr>))))"
  by (simp add: renderToDataURL_def js_defs
      split: prod.splits sum.splits option.splits callback_outcome.splits)

lemma renderToDataURLSync_unfold:
  "renderToDataURLSync env self c mimeType w =
     (case renderChart env self c w of
        (Inl e, w1) \<Rightarrow> (Inl e, w1)
      | (Inr ch, w1) \<Rightarrow>
          (case chart_canvas ch of
             None \<Rightarrow> (Inl (Error ''Canvas is null''), w1)
           | Some cv \<Rightarrow>
               (case toDataURL env cv (default_mimeType mimeType) of
                  Inl e \<Rightarrow>
                    (Inl (Foreign e),
                     w1\<lparr>trace := trace w1 @ [ToDataURL (default_mimeType mimeType)]\<rparr>)
                | Inr dataUrl \<Rightarrow>
                    (Inr dataUrl,
                     w1\<lparr>trace := trace w1 @ [ToDataURL (default_mimeType mimeType),
                                              Destroy]\<rparr>))))"
  by (simp add: renderToDataURLSync_def js_defs split: prod.splits sum.splits option.splits)

lemmas render_unfolds = renderToBuffer_unfold renderToBufferSync_unfold renderToBuffer_build_unfold
  renderToBufferSync_build_unfold renderToDataURL_unfold renderToDataURLSync_unfold

lemma render_heap:
  "heap (snd (renderToBuffer env self c w)) = heap (snd (renderChart env self c w))"
  "heap (snd (renderToBufferSync env self c w)) = heap (snd (renderChart env self c w))"
  "heap (snd (renderToDataURL env self c m w)) = heap (snd (renderChart env self c w))"
  "heap (snd (renderToDataURLSync env self c m w)) = heap (snd (renderChart env self c w))"
  by (simp_all add: render_unfolds
      split: prod.splits sum.splits option.splits callback_outcome.splits)

lemma render_global_Image:
  "global_Image (snd (renderToBuffer env self c w)) = global_Image (snd (renderChart env self c w))"
  "global_Image (snd (renderToBufferSync env self c w)) = global_Image (snd (renderChart env self c w))"
  "global_Image (snd (renderToDataURL env self c m w)) = global_Image (snd (renderChart env self c w))"
  "global_Image (snd (renderToDataURLSync env self c m w)) = global_Image (snd (renderChart env self c w))"
  by (simp_all add: render_unfolds
      split: prod.splits sum.splits option.splits callback_outcome.splits)

lemma renderChart_trace:
  "\<exists>evs. trace (snd (renderChart env self c w)) = trace w @ evs
     \<and> filter (\<lambda>ev. requested_format ev \<noteq> None) evs = [] \<and> Destroy \<notin> set evs"
proof -
  obtain cv S h W where W: "W = w\<lparr>heap := heap w @ S,
              trace := trace w @ [NewCanvas (facade_width self) (facade_height self)]\<rparr>"
    and r: "renderChart env self c w =
         (case fst (force_options c W) of
            Inl e \<Rightarrow> (Inl e, W\<lparr>heap := h\<rparr>)
          | Inr u \<Rightarrow> paint env self cv c (W\<lparr>heap := h\<rparr>))"
    using renderChart_result[of w self c env] by blast
  show ?thesis
    unfolding r W
    by (cases "fst (force_options c (w\<lparr>heap := heap w @ S,
              trace := trace w @ [NewCanvas (facade_width self) (facade_height self)]\<rparr>))")
       (auto simp: paint_result split: sum.splits prod.splits)
qed

lemma renderChart_Image:
  "global_Image (snd (renderChart env self c w)) =
     (case fst (renderChart env self c w) of
        Inl (Foreign e) \<Rightarrow> Some (facade_image self)
      | Inl _ \<Rightarrow> global_Image w
      | Inr ch \<Rightarrow> None)"
proof -
  obtain cv S h W where W: "W = w\<lparr>heap := heap w @ S,
              trace := trace w @ [NewCanvas (facade_width self) (facade_height self)]\<rparr>"
    and r: "renderChart env self c w =
         (case fst (force_options c W) of
            Inl e \<Rightarrow> (Inl e, W\<lparr>heap := h\<rparr>)
          | Inr u \<Rightarrow> paint env self cv c (W\<lparr>heap := h\<rparr>))"
    using renderChart_result[of w self c env] by blast
  show ?thesis
  proof (cases "fst (force_options c W)")
    case (Inl e)
    then obtain msg where "e = TypeError msg" using force_options_errors by blast
    with Inl r W show ?thesis by simp
  next
    case (Inr u)
    with r W show ?thesis by (simp add: paint_result split: sum.splits prod.splits)
  qed
qed


lemma new_events_append: "trace w' = trace w @ evs \<Longrightarrow> new_events w w' = evs"
  by (simp add: new_events_def)

lemma renderChart_new_events:
  "filter (\<lambda>ev. requested_format ev \<noteq> None) (new_events w (snd (renderChart env self c w))) = []"
  "Destroy \<notin> set (new_events w (snd (renderChart env self c w)))"
  "trace (snd (renderChart env self c w)) = trace w @ new_events w (snd (renderChart env self c w))"
  using renderChart_trace[of env self c w] by (auto simp: new_events_def)

lemma new_events_update: "new_events w (w1\<lparr>trace := trace w @ evs\<rparr>) = evs"
  by (simp add: new_events_def)

lemma buffer_methods_never_destroy:
  "Destroy \<notin> set (new_events w (snd (renderToBuffer env self c w)))"
  "Destroy \<notin> set (new_events w (snd (renderToBufferSync env self c w)))"
  "Destroy \<notin> set (new_events w (snd (renderToBuffer_build env self c w)))"
  "Destroy \<notin> set (new_events w (snd (renderToBufferSync_build env self c w)))"
  using renderChart_new_events[where w = w and env = env and self = self and c = c]
  by (auto simp: render_unfolds new_events_update split: prod.splits sum.splits option.splits)

lemma renderChart_events_on_throw:
  assumes "fst (renderChart env self c w) = Inl (Foreign e)"
  shows "new_events w (snd (renderChart env self c w)) =
           [NewCanvas (facade_width self) (facade_height self), GetContext ''2d'',
            SetGlobal ''Image'', NewChart (facade_chartJs self) c]"
proof -
  obtain cv S h W where W: "W = w\<lparr>heap := heap w @ S,
              trace := trace w @ [NewCanvas (facade_width self) (facade_height self)]\<rparr>"
    and r: "renderChart env self c w =
         (case fst (force_options c W) of
            Inl e \<Rightarrow> (Inl e, W\<lparr>heap := h\<rparr>)
          | Inr u \<Rightarrow> paint env self cv c (W\<lparr>heap := h\<rparr>))"
    using renderChart_result[of w self c env] by blast
  show ?thesis
  proof (cases "fst (force_options c W)")
    case (Inl e')
    then obtain msg where "e' = TypeError msg" using force_options_errors by blast
    with Inl r assms show ?thesis by simp
  next
    case (Inr u)
    with r W assms show ?thesis
      by (auto simp: paint_result new_events_def split: sum.splits prod.splits)
  qed
qed

text \<open>
  A \<open>Foreign\<close> error of \<open>renderChart\<close> is an error the engine raised when it was
  constructed.
\<close>

lemma renderChart_foreign_is_engine_error:
  assumes "fst (renderChart env self c w) = Inl (Foreign e)"
  shows "\<exists>W ctx. fst (new_chart env W (facade_chartJs self) ctx c) = Inl e"
proof -
  obtain cv S h W where r: "renderChart env self c w =
         (case fst (force_options c W) of
            Inl e \<Rightarrow> (Inl e, W\<lparr>heap := h\<rparr>)
          | Inr u \<Rightarrow> paint env self cv c (W\<lparr>heap := h\<rparr>))"
    using renderChart_result[of w self c env] by blast
  show ?thesis
  proof (cases "fst (force_options c W)")
    case (Inl e')
    then obtain msg where "e' = TypeError msg" using force_options_errors by blast
    with Inl r assms show ?thesis by simp
  next
    case (Inr u)
    with r assms show ?thesis
      by (simp add: paint_result split: sum.splits prod.splits) (metis fst_conv)
  qed
qed

text \<open>
  The data-URL methods: the error \<open>Canvas is null\<close> is the outcome exactly when the
  chart was constructed and has no canvas; with a canvas, the outcome is what the library
  does with the call.
\<close>

lemma data_url_outcomes:
  "((fst (renderToDataURL env self c mimeType w) = Inr (Rejected (Error ''Canvas is null''))) \<longleftrightarrow>
      (\<exists>ch. fst (renderChart env self c w) = Inr ch \<and> chart_canvas ch = None))
   \<and> ((fst (renderToDataURLSync env self c mimeType w) = Inl (Error ''Canvas is null'')) \<longleftrightarrow>
      (\<exists>ch. fst (renderChart env self c w) = Inr ch \<and> chart_canvas ch = None))
   \<and> (\<forall>ch cv. fst (renderChart env self c w) = Inr ch \<and> chart_canvas ch = Some cv \<longrightarrow>
        fst (renderToDataURL env self c mimeType w) =
          Inr (case toDataURL_callback env cv (default_mimeType mimeType) of
                 Throws e \<Rightarrow> Rejected (Foreign e)
               | NeverCallsBack \<Rightarrow> Pending
               | CallsBack r \<Rightarrow>
                   (case r of Inl error \<Rightarrow> Rejected (Foreign error) | Inr png \<Rightarrow> Resolved png))
      \<and> fst (renderToDataURLSync env self c mimeType w) =
          (case toDataURL env cv (default_mimeType mimeType) of
             Inl e \<Rightarrow> Inl (Foreign e) | Inr url \<Rightarrow> Inr url))"
proof (cases "renderChart env self c w")
  case (Pair r w1)
  show ?thesis
  proof (cases r)
    case (Inl e)
    with Pair renderChart_errors[of env self c w e] show ?thesis
      by (auto simp: render_unfolds)
  next
    case (Inr ch)
    show ?thesis
    proof (cases "chart_canvas ch")
      case None
      with Pair Inr show ?thesis by (simp add: render_unfolds)
    next
      case (Some cv)
      with Pair Inr show ?thesis
        by (simp add: render_unfolds split: sum.splits callback_outcome.splits)
    qed
  qed
qed

text \<open>
  The store in which the engine is constructed carries the writes of the class and no
  other; the store after \<open>renderChart\<close> is the one the engine leaves.
\<close>

lemma renderChart_store:
  assumes c: "c < length (heap w)"
    and o: "\<not> truthy (get_prop (heap w) (JObject c) ''options'') \<or>
            (\<exists>a. addr_of (get_prop (heap w) (JObject c) ''options'') = Some a \<and> a < length (heap w))"
  shows "\<exists>h' cv.
       (\<exists>a. addr_of (get_prop h' (JObject c) ''options'') = Some a
          \<and> (if truthy (get_prop (heap w) (JObject c) ''options'')
              then get_prop h' (JObject c) ''options'' = get_prop (heap w) (JObject c) ''options''
              else length (heap w) \<le> a)
          \<and> get_prop h' (JObject a) ''responsive'' = JBool False
          \<and> get_prop h' (JObject a) ''animation'' = JBool False
          \<and> (\<forall>b k. (b, k) \<notin> {(c, ''options''), (a, ''responsive''), (a, ''animation'')} \<longrightarrow>
                get_prop h' (JObject b) k = get_prop (heap w) (JObject b) k))
     \<and> heap (snd (renderChart env self c w)) =
         snd (new_chart env
               (w\<lparr>heap := h', global_Image := Some (facade_image self),
                  trace := trace w @ [NewCanvas (facade_width self) (facade_height self),
                                      GetContext ''2d'', SetGlobal ''Image'']\<rparr>)
               (facade_chartJs self) (context_of env cv ''2d'') c)"
proof -
  obtain cv S h W where S: "set S \<subseteq> {[]}" and W: "W = w\<lparr>heap := heap w @ S,
              trace := trace w @ [NewCanvas (facade_width self) (facade_height self)]\<rparr>"
    and f: "snd (force_options c W) = W\<lparr>heap := h\<rparr>"
    and r: "renderChart env self c w =
         (case fst (force_options c W) of
            Inl e \<Rightarrow> (Inl e, W\<lparr>heap := h\<rparr>)
          | Inr u \<Rightarrow> paint env self cv c (W\<lparr>heap := h\<rparr>))"
    using renderChart_result[of w self c env] by blast
  have hW: "heap W = heap w @ S" using W by simp
  have gW: "\<And>v k. get_prop (heap W) v k = get_prop (heap w) v k"
    using S hW by (simp add: get_prop_append)
  have cW: "c < length (heap W)" using c hW by simp
  have oW: "\<not> truthy (get_prop (heap W) (JObject c) ''options'') \<or>
            (\<exists>a. addr_of (get_prop (heap W) (JObject c) ''options'') = Some a \<and> a < length (heap W))"
    unfolding gW using o hW by auto
  have hf: "heap (snd (force_options c W)) = h" using f by simp
  from force_options_effect[OF cW oW] obtain a where
    ok: "fst (force_options c W) = Inr ()"
    and a: "addr_of (get_prop h (JObject c) ''options'') = Some a"
    and i: "if truthy (get_prop (heap W) (JObject c) ''options'')
           then get_prop h (JObject c) ''options'' = get_prop (heap W) (JObject c) ''options''
           else get_prop h (JObject c) ''options'' = JObject (length (heap W))"
    and resp: "get_prop h (JObject a) ''responsive'' = JBool False"
    and anim: "get_prop h (JObject a) ''animation'' = JBool False"
    and frame: "\<forall>b k. (b, k) \<notin> {(c, ''options''), (a, ''responsive''), (a, ''animation'')} \<longrightarrow>
             get_prop h (JObject b) k = get_prop (heap W) (JObject b) k"
    unfolding hf by blast
  have i': "if truthy (get_prop (heap w) (JObject c) ''options'')
           then get_prop h (JObject c) ''options'' = get_prop (heap w) (JObject c) ''options''
           else length (heap w) \<le> a"
  proof (cases "truthy (get_prop (heap w) (JObject c) ''options'')")
    case True
    with i show ?thesis by (simp add: gW)
  next
    case False
    with i have "get_prop h (JObject c) ''options'' = JObject (length (heap W))"
      by (simp add: gW)
    with a have "a = length (heap W)" by simp
    with False hW show ?thesis by simp
  qed
  have P: "\<exists>a. addr_of (get_prop h (JObject c) ''options'') = Some a
          \<and> (if truthy (get_prop (heap w) (JObject c) ''options'')
              then get_prop h (JObject c) ''options'' = get_prop (heap w) (JObject c) ''options''
              else length (heap w) \<le> a)
          \<and> get_prop h (JObject a) ''responsive'' = JBool False
          \<and> get_prop h (JObject a) ''animation'' = JBool False
          \<and> (\<forall>b k. (b, k) \<notin> {(c, ''options''), (a, ''responsive''), (a, ''animation'')} \<longrightarrow>
                get_prop h (JObject b) k = get_prop (heap w) (JObject b) k)"
    using a i' resp anim frame by (intro exI[of _ a]) (simp add: gW)
  have E: "heap (snd (renderChart env self c w)) =
         snd (new_chart env
               (w\<lparr>heap := h, global_Image := Some (facade_image self),
                  trace := trace w @ [NewCanvas (facade_width self) (facade_height self),
                                      GetContext ''2d'', SetGlobal ''Image'']\<rparr>)
               (facade_chartJs self) (context_of env cv ''2d'') c)"
  proof -
    define X where "X = w\<lparr>heap := h, global_Image := Some (facade_image self),
                  trace := trace w @ [NewCanvas (facade_width self) (facade_height self),
                                      GetContext ''2d'', SetGlobal ''Image'']\<rparr>"
    have X': "(W\<lparr>heap := h\<rparr>)\<lparr>global_Image := Some (facade_image self),
            trace := trace (W\<lparr>heap := h\<rparr>) @ [GetContext ''2d'', SetGlobal ''Image'']\<rparr> = X"
      using W by (simp add: X_def)
    have r': "renderChart env self c w = paint env self cv c (W\<lparr>heap := h\<rparr>)"
      using r ok by simp
    have "heap (snd (paint env self cv c (W\<lparr>heap := h\<rparr>))) =
          snd (new_chart env X (facade_chartJs self) (context_of env cv ''2d'') c)"
    proof (cases "new_chart env X (facade_chartJs self) (context_of env cv ''2d'') c")
      case (Pair r0 h0)
      show ?thesis unfolding paint_result X' Pair by (cases r0) simp_all
    qed
    then show ?thesis unfolding r' X_def .
  qed
  show ?thesis
    using P E by (intro exI[of _ h] exI[of _ cv] conjI)
qed

text \<open>
  Whenever the construction of the chart raises, \<open>renderChart\<close> ends with the global
  binding in place; it clears it when the construction returns.
\<close>

lemma render_Image_after:
  "fst (renderChart env self c w) = Inl (Foreign e) \<Longrightarrow>
     global_Image (snd (renderChart env self c w)) = Some (facade_image self)"
  "fst (renderChart env self c w) = Inr ch \<Longrightarrow>
     global_Image (snd (renderChart env self c w)) = None"
  by (simp_all add: renderChart_Image)

section \<open>The constructor\<close>

text \<open>
  Claim C2 says that the constructor raises exactly when the options are missing or not
  an object, or the width or the height is absent or not a positive number. The checks of
  lines 101 and 104 are for a truthy value of type \<open>number\<close>: zero and not-a-number are
  refused, a negative number is not. With \<open>{width: -1, height: 1}\<close> the constructor
  returns an instance.
\<close>

theorem constructor_accepts_negative_width:
  "fst (constructor quiet_env (JObject 0)
          (options_world [(''width'', JNum (Finite (- 1))), (''height'', JNum (Finite 1))])) =
     Inr \<lparr>facade_width = JNum (Finite (- 1)), facade_height = JNum (Finite 1),
          facade_chartJs = 0, facade_image = CanvasImage, facade_type = JUndefined\<rparr>"
  by (simp add: constructor_def lowered_type_def init_defs js_defs quiet_env_def
      options_world_def get_prop_def obj_at_def)

text \<open>
  Claim C2, amended. The constructor raises one of its own three errors exactly when the
  options are \<open>null\<close> or not of type \<open>object\<close>, or the width is not a number other than
  zero and not-a-number, or the height is not such a number. For options that pass these
  checks, it returns an instance with that width and height whenever \<open>type\<close> is falsy or
  a string and \<open>chartCallback\<close> is falsy or a function that returns.
\<close>

theorem constructor_validation:
  "((\<exists>msg. fst (constructor env options w) = Inl (Error msg)) \<longleftrightarrow>
      (options = JNull \<or> typeof options \<noteq> ''object''
       \<or> \<not> (\<exists>n. get_prop (heap w) options ''width'' = JNum n \<and> n \<noteq> NaN \<and> n \<noteq> Finite 0)
       \<or> \<not> (\<exists>n. get_prop (heap w) options ''height'' = JNum n \<and> n \<noteq> NaN \<and> n \<noteq> Finite 0)))
   \<and> (options \<noteq> JNull \<and> typeof options = ''object''
       \<and> (\<exists>n. get_prop (heap w) options ''width'' = JNum n \<and> n \<noteq> NaN \<and> n \<noteq> Finite 0)
       \<and> (\<exists>n. get_prop (heap w) options ''height'' = JNum n \<and> n \<noteq> NaN \<and> n \<noteq> Finite 0)
       \<and> (\<not> truthy (get_prop (heap w) options ''type'') \<or>
            (\<exists>s. get_prop (heap w) options ''type'' = JStr s))
       \<and> (\<not> truthy (get_prop (heap w) options ''chartCallback'') \<or>
            (\<exists>a f. get_prop (heap w) options ''chartCallback'' = JFunction a f \<and>
                   (\<forall>reg. \<exists>reg'. call_function env f reg = Inr reg')))
      \<longrightarrow> (\<exists>self. fst (constructor env options w) = Inr self
             \<and> facade_width self = get_prop (heap w) options ''width''
             \<and> facade_height self = get_prop (heap w) options ''height''))"
proof (intro conjI impI)
  have dim: "\<And>v. (\<not> truthy v \<or> typeof v \<noteq> ''number'') =
                 (\<not> (\<exists>n. v = JNum n \<and> n \<noteq> NaN \<and> n \<noteq> Finite 0))"
    subgoal for v by (cases v) auto
    done
  show "(\<exists>msg. fst (constructor env options w) = Inl (Error msg)) \<longleftrightarrow>
      (options = JNull \<or> typeof options \<noteq> ''object''
       \<or> \<not> (\<exists>n. get_prop (heap w) options ''width'' = JNum n \<and> n \<noteq> NaN \<and> n \<noteq> Finite 0)
       \<or> \<not> (\<exists>n. get_prop (heap w) options ''height'' = JNum n \<and> n \<noteq> NaN \<and> n \<noteq> Finite 0))"
    unfolding dim[symmetric]
    by (cases options)
       (auto simp: constructor_def lowered_type_def js_defs
          split: prod.splits sum.splits if_splits jsval.splits dest: initialize_errors)
next
  assume a: "options \<noteq> JNull \<and> typeof options = ''object''
       \<and> (\<exists>n. get_prop (heap w) options ''width'' = JNum n \<and> n \<noteq> NaN \<and> n \<noteq> Finite 0)
       \<and> (\<exists>n. get_prop (heap w) options ''height'' = JNum n \<and> n \<noteq> NaN \<and> n \<noteq> Finite 0)
       \<and> (\<not> truthy (get_prop (heap w) options ''type'') \<or>
            (\<exists>s. get_prop (heap w) options ''type'' = JStr s))
       \<and> (\<not> truthy (get_prop (heap w) options ''chartCallback'') \<or>
            (\<exists>a f. get_prop (heap w) options ''chartCallback'' = JFunction a f \<and>
                   (\<forall>reg. \<exists>reg'. call_function env f reg = Inr reg')))"
  then obtain ad where opt: "options = JObject ad"
    using typeof_object_cases by blast
  from a opt obtain m w' where i: "initialize env options w = (Inr m, w')"
    using initialize_succeeds[of options w env] by auto
  from a opt i show "\<exists>self. fst (constructor env options w) = Inr self
             \<and> facade_width self = get_prop (heap w) options ''width''
             \<and> facade_height self = get_prop (heap w) options ''height''"
    by (auto simp: constructor_def lowered_type_def js_defs)
qed

text \<open>
  The amended claim at two inputs: \<open>{width: 400, height: 300, type: 'PDF', chartCallback: f}\<close>
  is accepted, \<open>{width: '400', height: 300}\<close> is refused.
\<close>

theorem constructor_validation_witness:
  "(\<exists>self. fst (constructor quiet_env (JObject 0)
          (options_world [(''width'', JNum (Finite 400)), (''height'', JNum (Finite 300)),
                          (''type'', JStr ''PDF''), (''chartCallback'', JFunction 1 7)])) = Inr self
      \<and> facade_width self = JNum (Finite 400) \<and> facade_height self = JNum (Finite 300))
   \<and> (\<exists>msg. fst (constructor quiet_env (JObject 0)
          (options_world [(''width'', JStr ''400''), (''height'', JNum (Finite 300))])) =
        Inl (Error msg))"
  using constructor_validation[of quiet_env "JObject 0"
      "options_world [(''width'', JNum (Finite 400)), (''height'', JNum (Finite 300)),
                          (''type'', JStr ''PDF''), (''chartCallback'', JFunction 1 7)]"]
    constructor_validation[of quiet_env "JObject 0"
      "options_world [(''width'', JStr ''400''), (''height'', JNum (Finite 300))]"]
  by (simp add: quiet_env_def options_world_def get_prop_def obj_at_def)

section \<open>\<open>initialize\<close>\<close>

text \<open>
  Claim C4 says that the plugin registered by \<open>initialize\<close> is constructed with the
  \<open>backgroundColour\<close> of the options when there is one, and with white otherwise. Line 160
  passes the constant \<open>'#fff'\<close> and never reads \<open>backgroundColour\<close>, which the interface
  documents (lines 77 to 80) as the background colour of the chart: with
  \<open>{width: 400, height: 300, backgroundColour: 'red'}\<close> the one plugin registered has the
  fill style \<open>'#fff'\<close>.
\<close>

theorem initialize_ignores_backgroundColour:
  "fst (initialize quiet_env (JObject 0)
          (options_world [(''width'', JNum (Finite 400)), (''height'', JNum (Finite 300)),
                          (''backgroundColour'', JStr ''red'')])) = Inr 0
   \<and> registry (snd (initialize quiet_env (JObject 0)
          (options_world [(''width'', JNum (Finite 400)), (''height'', JNum (Finite 300)),
                          (''backgroundColour'', JStr ''red'')]))) 0 =
        [Background (new_BackgroundColourPlugin (JNum (Finite 400)) (JNum (Finite 300))
           (JStr ''#fff''))]"
  by (simp add: init_defs js_defs quiet_env_def options_world_def get_prop_def obj_at_def
      registry_def)

text \<open>
  Claim C5 says that \<open>initialize\<close> first obtains a fresh engine module, which the
  interface promises the hook as well (lines 64 to 67: called once with a new reference).
  Line 155 is a plain \<open>require\<close>, which answers the cached module when the process has
  loaded the engine before; the removal from the cache on line 162 comes after the use
  and serves the next instance only. In a process where other code has loaded the engine
  and registered a component with it, \<open>initialize\<close> loads no module and returns the one
  that code holds, with its registration.
\<close>

theorem initialize_reuses_cached_module:
  "fst (initialize quiet_env (JObject 0)
          (preloaded_world [(''width'', JNum (Finite 400)), (''height'', JNum (Finite 300))])) =
     Inr 0
   \<and> registry (preloaded_world [(''width'', JNum (Finite 400)), (''height'', JNum (Finite 300))]) 0 =
        [Component ''annotation'']
   \<and> length (modules (snd (initialize quiet_env (JObject 0)
          (preloaded_world [(''width'', JNum (Finite 400)), (''height'', JNum (Finite 300))])))) =
      length (modules
          (preloaded_world [(''width'', JNum (Finite 400)), (''height'', JNum (Finite 300))]))
   \<and> hd (registry (snd (initialize quiet_env (JObject 0)
          (preloaded_world [(''width'', JNum (Finite 400)), (''height'', JNum (Finite 300))]))) 0) =
        Component ''annotation''"
  by (simp add: init_defs js_defs quiet_env_def preloaded_world_def get_prop_def obj_at_def
      registry_def)

section \<open>The background plugin\<close>

text \<open>
  Claim C6. On \<open>beforeDraw\<close> the plugin makes exactly four calls on the context of the
  chart, in this order: \<open>save\<close>, the assignment of its fill style, \<open>fillRect\<close> from
  (0, 0) with its width and height, \<open>restore\<close>. Afterwards the drawing state and the
  stack of saved states are what they were before.
\<close>

theorem beforeDraw_saves_fills_restores:
  "ctx_calls (chart_ctx (beforeDraw this ch)) =
     ctx_calls (chart_ctx ch) @
       [Save, SetFillStyle (plugin_fillStyle this),
        FillRect (JNum (Finite 0)) (JNum (Finite 0)) (plugin_width this) (plugin_height this),
        Restore]
   \<and> ctx_state (chart_ctx (beforeDraw this ch)) = ctx_state (chart_ctx ch)
   \<and> ctx_saved (chart_ctx (beforeDraw this ch)) = ctx_saved (chart_ctx ch)
   \<and> ctx_canvas (chart_ctx (beforeDraw this ch)) = ctx_canvas (chart_ctx ch)
   \<and> chart_canvas (beforeDraw this ch) = chart_canvas ch"
  by (simp add: beforeDraw_def save_def set_fillStyle_def fillRect_def restore_def Let_def)

section \<open>Fonts\<close>

text \<open>
  Claim C9 says that \<open>registerFont\<close> registers the file under the family name together
  with the weight and the style of the options. Line 150 passes the path and the family
  only: options that differ in weight and style lead to the same call.
\<close>

theorem registerFont_drops_weight_and_style:
  "registerFont example_facade ''comicsans.ttf''
      \<lparr>font_family = ''Comic Sans'', font_weight = Some ''bold'', font_style = Some ''italic''\<rparr>
      example_world =
   registerFont example_facade ''comicsans.ttf''
      \<lparr>font_family = ''Comic Sans'', font_weight = None, font_style = None\<rparr>
      example_world"
  by (simp add: registerFont_def)

text \<open>
  Claim C9, amended. \<open>registerFont\<close> makes one call to the font registry of the canvas
  library, with the path and the family name of the options, and changes nothing else;
  the weight and the style of the options have no effect. The compiled builds do the
  same through the registry of their canvas library.
\<close>

theorem registerFont_registers_family_only:
  "registerFont self path options w =
     (Inr (), w\<lparr>trace := trace w @ [RegisterFromPath path (font_family options)]\<rparr>)
   \<and> registerFont_build self path options w =
     (Inr (), w\<lparr>trace := trace w @ [FontLibraryUse (font_family options) [path]]\<rparr>)
   \<and> registerFont self path (options\<lparr>font_weight := weight, font_style := style\<rparr>) =
     registerFont self path options
   \<and> registerFont_build self path (options\<lparr>font_weight := weight, font_style := style\<rparr>) =
     registerFont_build self path options"
  by (simp add: registerFont_def registerFont_build_def emit_def)

section \<open>The render methods\<close>

text \<open>
  Claim C1 says that the global \<open>Image\<close> binding is cleared after every render call,
  also when the construction of the chart raises. \<open>renderChart\<close> sets the binding (line
  175), constructs the chart (line 176) and deletes the binding (line 177) as three
  statements in a row, with nothing that runs the third when the second raises. So,
  whatever the engine, the instance, the configuration and the process: when the
  construction of the chart raises (the only error of a collaborator that \<open>renderChart\<close>
  can end with), the calls \<open>renderChart\<close> made end with the write to the global object
  and the construction, and each of the four render methods ends with the engine's error
  and with \<open>Image\<close> bound to the class of the instance.
\<close>

theorem render_leaves_Image_bound_when_construction_throws:
  assumes "fst (renderChart env self c w) = Inl (Foreign e)"
  shows "new_events w (snd (renderChart env self c w)) =
           [NewCanvas (facade_width self) (facade_height self), GetContext ''2d'',
            SetGlobal ''Image'', NewChart (facade_chartJs self) c]
       \<and> fst (renderToBuffer env self c w) = Inl (Foreign e)
       \<and> global_Image (snd (renderToBuffer env self c w)) = Some (facade_image self)
       \<and> fst (renderToBufferSync env self c w) = Inl (Foreign e)
       \<and> global_Image (snd (renderToBufferSync env self c w)) = Some (facade_image self)
       \<and> fst (renderToDataURL env self c m w) = Inl (Foreign e)
       \<and> global_Image (snd (renderToDataURL env self c m w)) = Some (facade_image self)
       \<and> fst (renderToDataURLSync env self c m w) = Inl (Foreign e)
       \<and> global_Image (snd (renderToDataURLSync env self c m w)) = Some (facade_image self)"
proof -
  have ev: "new_events w (snd (renderChart env self c w)) =
           [NewCanvas (facade_width self) (facade_height self), GetContext ''2d'',
            SetGlobal ''Image'', NewChart (facade_chartJs self) c]"
    using assms by (rule renderChart_events_on_throw)
  have g: "global_Image (snd (renderChart env self c w)) = Some (facade_image self)"
    using assms by (rule render_Image_after(1))
  obtain w1 where r: "renderChart env self c w = (Inl (Foreign e), w1)"
    using assms by (cases "renderChart env self c w") simp
  show ?thesis
    using ev g r by (simp add: render_unfolds)
qed

text \<open>
  The statement at the configuration
  \<open>{type: 'nonexistent', data: {datasets: [{data: [1]}]}}\<close>, for whose dataset the
  engine finds no controller, in a process where \<open>Image\<close> was not bound before.
\<close>

theorem render_leaves_Image_bound_when_construction_throws_witness:
  "fst (renderChart quiet_env example_facade 0 unknown_type_world) =
     Inl (Foreign ''not a registered controller'')
   \<and> global_Image unknown_type_world = None
   \<and> fst (renderToBufferSync quiet_env example_facade 0 unknown_type_world) =
       Inl (Foreign ''not a registered controller'')
   \<and> global_Image (snd (renderToBufferSync quiet_env example_facade 0 unknown_type_world)) =
       Some CanvasImage
   \<and> global_Image (snd (renderToBuffer quiet_env example_facade 0 unknown_type_world)) =
       Some CanvasImage
   \<and> global_Image (snd (renderToDataURL quiet_env example_facade 0 JUndefined unknown_type_world)) =
       Some CanvasImage
   \<and> global_Image (snd (renderToDataURLSync quiet_env example_facade 0 JUndefined unknown_type_world)) =
       Some CanvasImage"
proof -
  have run: "fst (renderChart quiet_env example_facade 0 unknown_type_world) =
     Inl (Foreign ''not a registered controller'')"
    by (simp add: renderChart_def new_Canvas_def getContext_def set_global_Image_def
      delete_global_Image_def construct_chart_def js_defs quiet_env_def example_engine_def
      engine_takes_in_def first_dataset_def controller_type_def example_facade_def
        example_world_def unknown_type_world_def get_prop_def obj_at_def)
  show ?thesis
    using render_leaves_Image_bound_when_construction_throws[OF run, of JUndefined] run
    by (simp add: example_facade_def example_world_def unknown_type_world_def)
qed

text \<open>
  Claim C3 says that a render call sets \<open>responsive\<close> and \<open>animation\<close> of
  \<open>configuration.options\<close> and modifies no other field of the configuration. The class
  hands the caller's object to the engine by reference (line 176), and the engine writes
  to it: for \<open>{type: 'bar', options: {responsive: true, scales: {}}}\<close> the \<open>scales\<close> of
  the options and the \<open>data\<close> of the configuration are not, after the call, what they
  were before.
\<close>

theorem render_call_changes_other_fields:
  "get_prop (heap configured_world) (JObject 1) ''scales'' = JObject 2
   \<and> get_prop (heap (snd (renderToBufferSync quiet_env example_facade 0 configured_world)))
        (JObject 1) ''scales'' = JObject 6
   \<and> get_prop (heap configured_world) (JObject 0) ''data'' = JUndefined
   \<and> get_prop (heap (snd (renderToBufferSync quiet_env example_facade 0 configured_world)))
        (JObject 0) ''data'' = JObject 4"
  by (simp add: renderToBufferSync_def renderChart_def new_Canvas_def getContext_def set_global_Image_def
      delete_global_Image_def construct_chart_def js_defs quiet_env_def example_engine_def
      engine_takes_in_def first_dataset_def controller_type_def example_facade_def
      configured_world_def get_prop_def obj_at_def)

text \<open>
  Claim C3, amended. For a configuration that is an object whose \<open>options\<close> are absent
  (or otherwise falsy) or an object, in each of the four render calls the engine is
  constructed in a store in which \<open>configuration.options\<close> is an object, the one it was
  before when there was one and a new one otherwise, whose \<open>responsive\<close> and
  \<open>animation\<close> are \<open>false\<close>, and in which every other property of every object, the
  configuration's among them, reads as before the call: these writes are the only ones
  the class makes. The store after the call is the one the engine leaves, whether it
  returns or raises.
\<close>

theorem render_writes_only_responsive_and_animation:
  assumes "c < length (heap w)"
    and "\<not> truthy (get_prop (heap w) (JObject c) ''options'') \<or>
         (\<exists>a. addr_of (get_prop (heap w) (JObject c) ''options'') = Some a \<and> a < length (heap w))"
  shows "\<forall>w' \<in> {snd (renderToBuffer env self c w), snd (renderToBufferSync env self c w),
                 snd (renderToDataURL env self c m w), snd (renderToDataURLSync env self c m w)}.
     \<exists>h' cv.
       (\<exists>a. addr_of (get_prop h' (JObject c) ''options'') = Some a
          \<and> (if truthy (get_prop (heap w) (JObject c) ''options'')
              then get_prop h' (JObject c) ''options'' = get_prop (heap w) (JObject c) ''options''
              else length (heap w) \<le> a)
          \<and> get_prop h' (JObject a) ''responsive'' = JBool False
          \<and> get_prop h' (JObject a) ''animation'' = JBool False
          \<and> (\<forall>b k. (b, k) \<notin> {(c, ''options''), (a, ''responsive''), (a, ''animation'')} \<longrightarrow>
                get_prop h' (JObject b) k = get_prop (heap w) (JObject b) k))
     \<and> heap w' =
         snd (new_chart env
               (w\<lparr>heap := h', global_Image := Some (facade_image self),
                  trace := trace w @ [NewCanvas (facade_width self) (facade_height self),
                                      GetContext ''2d'', SetGlobal ''Image'']\<rparr>)
               (facade_chartJs self) (context_of env cv ''2d'') c)"
proof (intro ballI)
  fix w' assume "w' \<in> {snd (renderToBuffer env self c w), snd (renderToBufferSync env self c w),
                 snd (renderToDataURL env self c m w), snd (renderToDataURLSync env self c m w)}"
  then have hw: "heap w' = heap (snd (renderChart env self c w))"
    by (auto simp: render_heap)
  show "\<exists>h' cv.
       (\<exists>a. addr_of (get_prop h' (JObject c) ''options'') = Some a
          \<and> (if truthy (get_prop (heap w) (JObject c) ''options'')
              then get_prop h' (JObject c) ''options'' = get_prop (heap w) (JObject c) ''options''
              else length (heap w) \<le> a)
          \<and> get_prop h' (JObject a) ''responsive'' = JBool False
          \<and> get_prop h' (JObject a) ''animation'' = JBool False
          \<and> (\<forall>b k. (b, k) \<notin> {(c, ''options''), (a, ''responsive''), (a, ''animation'')} \<longrightarrow>
                get_prop h' (JObject b) k = get_prop (heap w) (JObject b) k))
     \<and> heap w' =
         snd (new_chart env
               (w\<lparr>heap := h', global_Image := Some (facade_image self),
                  trace := trace w @ [NewCanvas (facade_width self) (facade_height self),
                                      GetContext ''2d'', SetGlobal ''Image'']\<rparr>)
               (facade_chartJs self) (context_of env cv ''2d'') c)"
    unfolding hw by (rule renderChart_store[OF assms])
qed

text \<open>
  The amended claim at \<open>{type: 'bar', options: {responsive: true, scales: {}}}\<close> with
  the example engine, which leaves the two fields alone: after the call the options are
  the object they were, with both fields \<open>false\<close>.
\<close>

theorem render_writes_only_responsive_and_animation_witness:
  "0 < length (heap configured_world)
   \<and> get_prop (heap configured_world) (JObject 0) ''options'' = JObject 1
   \<and> get_prop (heap configured_world) (JObject 1) ''responsive'' = JBool True
   \<and> get_prop (heap (snd (renderToDataURLSync quiet_env example_facade 0 JUndefined configured_world)))
        (JObject 0) ''options'' = JObject 1
   \<and> get_prop (heap (snd (renderToDataURLSync quiet_env example_facade 0 JUndefined configured_world)))
        (JObject 1) ''responsive'' = JBool False
   \<and> get_prop (heap (snd (renderToDataURLSync quiet_env example_facade 0 JUndefined configured_world)))
        (JObject 1) ''animation'' = JBool False
   \<and> get_prop (heap (snd (renderToDataURLSync quiet_env example_facade 0 JUndefined configured_world)))
        (JObject 0) ''type'' = JStr ''bar''"
  using render_writes_only_responsive_and_animation[of 0 configured_world quiet_env
      example_facade JUndefined]
  by (simp add: renderToDataURLSync_def renderChart_def new_Canvas_def getContext_def set_global_Image_def
      delete_global_Image_def construct_chart_def js_defs quiet_env_def example_engine_def
      engine_takes_in_def first_dataset_def controller_type_def example_facade_def
      configured_world_def get_prop_def obj_at_def default_mimeType_def)

text \<open>
  Claim C7 says that, when the canvas is present, the data-URL methods pass on the
  encoding or its failure. \<open>renderToDataURL\<close> settles its promise inside a callback it
  hands to \<open>toDataURL\<close> (lines 41 to 47), and \<open>renderToDataURLSync\<close> returns what
  \<open>toDataURL(mimeType)\<close> returns (lines 63 to 65); the canvas library this build loads
  (line 4) answers \<open>toDataURL\<close> with a promise and has \<open>toDataURLSync\<close> for the string,
  as the buffer methods of the same file know (\<open>toBuffer\<close> and \<open>toBufferSync\<close>). With
  that library, for \<open>{type: 'line'}\<close>: the promise of \<open>renderToDataURL\<close> never settles
  and the chart is not destroyed; \<open>renderToDataURLSync\<close> returns a promise in place of
  the string.
\<close>

theorem data_url_methods_do_not_deliver_the_encoding:
  "fst (renderToDataURL quiet_env example_facade 0 JUndefined example_world) = Inr Pending
   \<and> new_events example_world
        (snd (renderToDataURL quiet_env example_facade 0 JUndefined example_world)) =
       [NewCanvas (JNum (Finite 400)) (JNum (Finite 300)), GetContext ''2d'', SetGlobal ''Image'',
        NewChart 0 0, DeleteGlobal ''Image'', ToDataURL (JStr ''image/png'')]
   \<and> fst (renderToDataURLSync quiet_env example_facade 0 JUndefined example_world) =
       Inr (Promise (Resolved ''data:image/png;base64,iVBORw0KGgo=''))"
  by (simp add: renderToDataURL_def renderToDataURLSync_def renderChart_def new_Canvas_def getContext_def set_global_Image_def
      delete_global_Image_def construct_chart_def js_defs quiet_env_def example_engine_def
      engine_takes_in_def first_dataset_def controller_type_def example_facade_def
      example_world_def get_prop_def obj_at_def default_mimeType_def new_events_def)

text \<open>
  Claim C8 says that each render method destroys the chart it constructed before it
  delivers its result. \<open>renderToDataURL\<close> and \<open>renderToDataURLSync\<close> call
  \<open>chart.destroy()\<close>; \<open>renderToBuffer\<close> and \<open>renderToBufferSync\<close> (lines 123 to 139, and
  the same in the builds) return the encoder's answer and never call it. On the same
  input the calls of the two synchronous methods differ in the last one.
\<close>

theorem buffer_methods_do_not_destroy_the_chart:
  "fst (renderToBufferSync quiet_env example_facade 0 example_world) = Inr [137, 80, 78, 71]
   \<and> new_events example_world (snd (renderToBufferSync quiet_env example_facade 0 example_world)) =
       [NewCanvas (JNum (Finite 400)) (JNum (Finite 300)), GetContext ''2d'', SetGlobal ''Image'',
        NewChart 0 0, DeleteGlobal ''Image'', ToBuffer ''image/png'']
   \<and> fst (renderToBuffer quiet_env example_facade 0 example_world) =
       Inr (Resolved [137, 80, 78, 71])
   \<and> new_events example_world (snd (renderToBuffer quiet_env example_facade 0 example_world)) =
       [NewCanvas (JNum (Finite 400)) (JNum (Finite 300)), GetContext ''2d'', SetGlobal ''Image'',
        NewChart 0 0, DeleteGlobal ''Image'', Encode ''png'']
   \<and> new_events example_world
        (snd (renderToDataURLSync quiet_env example_facade 0 JUndefined example_world)) =
       [NewCanvas (JNum (Finite 400)) (JNum (Finite 300)), GetContext ''2d'', SetGlobal ''Image'',
        NewChart 0 0, DeleteGlobal ''Image'', ToDataURL (JStr ''image/png''), Destroy]"
  by (simp add: renderToBufferSync_def renderToBuffer_def renderToDataURLSync_def renderChart_def new_Canvas_def getContext_def set_global_Image_def
      delete_global_Image_def construct_chart_def js_defs quiet_env_def example_engine_def
      engine_takes_in_def first_dataset_def controller_type_def example_facade_def
      example_world_def get_prop_def obj_at_def default_mimeType_def new_events_def)



end
